theory Spec2Isabelle
  imports Complex_Main "HOL-Library.Multiset" "HOL-Library.AList"
begin

section \<open>JavaScript values\<close>

text \<open>
  The chart helpers are TypeScript functions over loosely typed data. A number is an IEEE
  double: \<open>NaN\<close>, the two infinities, or a finite value. Finite values are kept as exact
  reals: rounding is not modelled, and no property below depends on it (the zero tests,
  comparisons, \<open>Math.max\<close> and \<open>Math.min\<close> are exact on doubles). Signed zero is not
  distinguished.
\<close>

datatype jsnum = NaN | NegInf | Fin real | PosInf

text \<open>
  An object is an ordered association list of its own properties; only property lookup is
  used below.
\<close>

datatype jsval =
    JUndefined
  | JNull
  | JBool bool
  | JNum jsnum
  | JStr string
  | JArr "jsval list"
  | JObj "(string \<times> jsval) list"

text \<open>ToBoolean: what \<open>!x\<close>, \<open>x || y\<close> and \<open>x && y\<close> test.\<close>

fun truthy :: "jsval \<Rightarrow> bool" where
  "truthy JUndefined = False"
| "truthy JNull = False"
| "truthy (JBool b) = b"
| "truthy (JNum n) = (n \<noteq> NaN \<and> n \<noteq> Fin 0)"
| "truthy (JStr s) = (s \<noteq> [])"
| "truthy (JArr xs) = True"
| "truthy (JObj kvs) = True"

section \<open>The style and setting configuration tree\<close>

text \<open>
  A node of the tree (\<open>ChartStyleConfig\<close>) has a \<open>key\<close>, a \<open>label\<close>, a \<open>value\<close> and
  optional child \<open>rows\<close>. The type declaration is not among the sources; these are the
  fields the helpers read. The selector of \<open>value\<close> is called \<open>val\<close>.
\<close>

datatype config = Config (key: string) (label: jsval) (val: jsval) (rows: "config list option")

text \<open>
  \<open>group[targetKey]\<close> reads a field by name: a plain value, the child rows, or
  \<open>undefined\<close> for a field the node does not have.
\<close>

datatype field_value = Value jsval | Rows "config list"

fun getField :: "config \<Rightarrow> string \<Rightarrow> field_value" where
  "getField grp targetKey =
     (if targetKey = ''key'' then Value (JStr (key grp))
      else if targetKey = ''label'' then Value (label grp)
      else if targetKey = ''value'' then Value (val grp)
      else if targetKey = ''rows'' then
        (case rows grp of None \<Rightarrow> Value JUndefined | Some rs \<Rightarrow> Rows rs)
      else Value JUndefined)"

text \<open>\<open>Array.prototype.shift\<close>: the removed first element (or \<open>undefined\<close>) and the array left.\<close>

fun shift :: "'a list \<Rightarrow> 'a option \<times> 'a list" where
  "shift [] = (None, [])"
| "shift (x # xs) = (Some x, xs)"

lemma shift_shorter: "(Some k, ks') = shift ks \<Longrightarrow> length ks' < length ks"
  by (cases ks) auto

text \<open>
  Modelled from the spec: \<open>isEmptyArray\<close> of \<open>utils/object\<close> is not among the sources. The
  spec describes \<open>getValue\<close> as a path walk over nested trees and says no more of the
  helper; by its name it is true exactly when the array has no element (an absent array
  is replaced by \<open>[]\<close> before every call modelled here).
\<close>

definition isEmptyArray :: "'a list \<Rightarrow> bool" where
  "isEmptyArray xs = (xs = [])"

text \<open>
  The \<open>while\<close> loop of \<open>getValue\<close>. \<open>keyPaths.shift()\<close> changes the caller's array, so the
  loop returns the array it leaves behind together with the result. Falling out of the
  loop returns \<open>undefined\<close>.
\<close>

function getValue_while ::
  "config list \<Rightarrow> string list \<Rightarrow> string \<Rightarrow> field_value \<times> string list" where
  "getValue_while iterators keyPaths targetKey =
     (if isEmptyArray iterators then (Value JUndefined, keyPaths)
      else (case shift keyPaths of (k, keyPaths') \<Rightarrow>
        (case find (\<lambda>sc. Some (key sc) = k) iterators of
           None \<Rightarrow> (Value JUndefined, keyPaths')
         | Some grp \<Rightarrow>
             if isEmptyArray keyPaths' then (getField grp targetKey, keyPaths')
             else getValue_while (case rows grp of None \<Rightarrow> [] | Some rs \<Rightarrow> rs)
                    keyPaths' targetKey)))"
  by pat_completeness auto
termination
  by (relation "measure (\<lambda>(i, ks, t). length ks)") (auto simp: find_Some_iff dest: shift_shorter)

declare getValue_while.simps [simp del]

text \<open>\<open>getValue(configs, keyPaths, targetKey = 'value')\<close>, with \<open>configs || []\<close>.\<close>

definition getValue ::
  "config list option \<Rightarrow> string list \<Rightarrow> string option \<Rightarrow> field_value \<times> string list" where
  "getValue configs keyPaths targetKey =
     getValue_while (case configs of None \<Rightarrow> [] | Some cs \<Rightarrow> cs) keyPaths
       (case targetKey of None \<Rightarrow> ''value'' | Some t \<Rightarrow> t)"

text \<open>\<open>path.split('.')\<close>: always at least one piece.\<close>

fun str_split :: "string \<Rightarrow> string list" where
  "str_split [] = [[]]"
| "str_split (c # cs) =
     (if c = CHR ''.'' then [] # str_split cs
      else (c # hd (str_split cs)) # tl (str_split cs))"

text \<open>
  \<open>getSettingValue\<close> hands \<open>getValue\<close> a fresh array, so only the result is visible to its
  caller.
\<close>

definition getSettingValue :: "config list option \<Rightarrow> string \<Rightarrow> string option \<Rightarrow> field_value" where
  "getSettingValue configs path targetKey = fst (getValue configs (str_split path) targetKey)"

subsection \<open>The path walk, as the specification words it\<close>

text \<open>
  At each level find the node whose key is the next path element and descend into its
  rows; the node found for the last element is the result. There is none when an element
  matches no node, when the tree runs out first, or when the path is empty.
\<close>

fun walk :: "config list \<Rightarrow> string list \<Rightarrow> config option" where
  "walk level [] = None"
| "walk level [k] = find (\<lambda>n. key n = k) level"
| "walk level (k # k' # ks) =
     (case find (\<lambda>n. key n = k) level of
        None \<Rightarrow> None
      | Some n \<Rightarrow> walk (case rows n of None \<Rightarrow> [] | Some rs \<Rightarrow> rs) (k' # ks))"

definition walk_value :: "config list \<Rightarrow> string list \<Rightarrow> string \<Rightarrow> field_value" where
  "walk_value configs keyPaths targetKey =
     (case walk configs keyPaths of
        None \<Rightarrow> Value JUndefined
      | Some n \<Rightarrow> getField n targetKey)"

lemma find_never [simp]: "find (\<lambda>x. False) xs = None"
  by (induction xs) auto

lemma walk_Nil [simp]: "walk [] ks = None"
proof (cases ks)
  case Nil
  then show ?thesis by simp
next
  case (Cons k ks')
  then show ?thesis by (cases ks') auto
qed

lemma getValue_while_walk:
  "fst (getValue_while configs keyPaths targetKey) = walk_value configs keyPaths targetKey"
proof (induction configs keyPaths rule: walk.induct)
  case (1 level)
  show ?case
    by (simp add: getValue_while.simps [of level "[]"] walk_value_def isEmptyArray_def)
next
  case (2 level k)
  show ?case
    by (simp add: getValue_while.simps [of level "[k]"] walk_value_def isEmptyArray_def
        split: option.split)
next
  case (3 level k k' ks)
  show ?case
  proof (cases "find (\<lambda>n. key n = k) level")
    case None
    then show ?thesis
      by (simp add: getValue_while.simps [of level "k # k' # ks"] walk_value_def isEmptyArray_def)
  next
    case (Some n)
    then have "level \<noteq> []" by auto
    with Some 3 [OF Some] show ?thesis
      by (simp add: getValue_while.simps [of level "k # k' # ks"] walk_value_def isEmptyArray_def)
  qed
qed

section \<open>Property access and the axis-label overflow test\<close>

text \<open>
  \<open>o[name]\<close> for a property name that no built-in prototype defines (\<open>xAxis\<close>,
  \<open>axisLabel\<close>, \<open>show\<close>, ...): an object's own property, \<open>undefined\<close> on every other
  value. With optional chaining (\<open>o?.[name]\<close>) the result on \<open>null\<close> and \<open>undefined\<close> is
  \<open>undefined\<close> as well.
\<close>

fun js_get :: "jsval \<Rightarrow> string \<Rightarrow> jsval" where
  "js_get (JObj kvs) name = (case map_of kvs name of None \<Rightarrow> JUndefined | Some v \<Rightarrow> v)"
| "js_get v name = JUndefined"

text \<open>\<open>o?.[0]\<close>: the first element of an array, the first character of a string.\<close>

fun js_index0 :: "jsval \<Rightarrow> jsval" where
  "js_index0 (JArr xs) = (case xs of [] \<Rightarrow> JUndefined | x # _ \<Rightarrow> x)"
| "js_index0 (JStr s) = (case s of [] \<Rightarrow> JUndefined | c # _ \<Rightarrow> JStr [c])"
| "js_index0 (JObj kvs) = (case map_of kvs ''0'' of None \<Rightarrow> JUndefined | Some v \<Rightarrow> v)"
| "js_index0 v = JUndefined"

text \<open>\<open>a && b\<close> returns \<open>a\<close> itself when it is falsy.\<close>

definition js_and :: "jsval \<Rightarrow> jsval \<Rightarrow> jsval" where
  "js_and a b = (if truthy a then b else a)"

definition getIntervalShow :: "jsval \<Rightarrow> bool" where
  "getIntervalShow interval = (interval \<noteq> JStr ''auto'' \<and> interval \<noteq> JNull)"

definition hadAxisLabelOverflowConfig :: "jsval \<Rightarrow> bool \<Rightarrow> jsval" where
  "hadAxisLabelOverflowConfig options horizon =
     (if \<not> truthy options then JBool False
      else
        let axisName = (if \<not> horizon then ''xAxis'' else ''yAxis'');
            axisLabelOpts = js_get (js_index0 (js_get options axisName)) ''axisLabel''
        in if \<not> truthy axisLabelOpts then JBool False
           else
             let overflow = js_get axisLabelOpts ''overflow'';
                 interval = js_get axisLabelOpts ''interval'';
                 show = js_get axisLabelOpts ''show''
             in js_and show (js_and overflow (JBool (getIntervalShow interval))))"

text \<open>The axis label the test reads: that of the first \<open>xAxis\<close>, or \<open>yAxis\<close> when horizontal.\<close>

definition firstAxisLabel :: "jsval \<Rightarrow> bool \<Rightarrow> jsval" where
  "firstAxisLabel options horizon =
     js_get (js_index0 (js_get options (if horizon then ''yAxis'' else ''xAxis''))) ''axisLabel''"

lemma js_get_falsy: "\<not> truthy v \<Longrightarrow> js_get v name = JUndefined"
  by (cases v) auto

lemma js_and_True: "js_and a b = JBool True \<longleftrightarrow> (if truthy a then b = JBool True else False)"
  by (cases a) (auto simp: js_and_def)

section \<open>Numbers\<close>

text \<open>The comparison \<open>a < b\<close>: false whenever an operand is \<open>NaN\<close>.\<close>

fun js_lt :: "jsnum \<Rightarrow> jsnum \<Rightarrow> bool" where
  "js_lt NaN b = False"
| "js_lt a NaN = False"
| "js_lt NegInf NegInf = False"
| "js_lt NegInf b = True"
| "js_lt (Fin x) (Fin y) = (x < y)"
| "js_lt (Fin x) PosInf = True"
| "js_lt (Fin x) NegInf = False"
| "js_lt PosInf b = False"

definition js_le :: "jsnum \<Rightarrow> jsnum \<Rightarrow> bool" where
  "js_le a b = (a \<noteq> NaN \<and> b \<noteq> NaN \<and> \<not> js_lt b a)"

fun js_neg :: "jsnum \<Rightarrow> jsnum" where
  "js_neg NaN = NaN"
| "js_neg NegInf = PosInf"
| "js_neg PosInf = NegInf"
| "js_neg (Fin x) = Fin (- x)"

fun js_add :: "jsnum \<Rightarrow> jsnum \<Rightarrow> jsnum" where
  "js_add NaN b = NaN"
| "js_add a NaN = NaN"
| "js_add (Fin x) (Fin y) = Fin (x + y)"
| "js_add (Fin x) b = b"
| "js_add a (Fin y) = a"
| "js_add a b = (if a = b then a else NaN)"

definition js_sub :: "jsnum \<Rightarrow> jsnum \<Rightarrow> jsnum" where
  "js_sub a b = js_add a (js_neg b)"

text \<open>The sign of a number that is not \<open>NaN\<close>: \<open>-1\<close>, \<open>0\<close> or \<open>1\<close>.\<close>

fun js_sign :: "jsnum \<Rightarrow> int" where
  "js_sign NaN = 0"
| "js_sign NegInf = - 1"
| "js_sign PosInf = 1"
| "js_sign (Fin x) = (if x < 0 then - 1 else if x = 0 then 0 else 1)"

definition signed_inf :: "int \<Rightarrow> jsnum" where
  "signed_inf s = (if s < 0 then NegInf else PosInf)"

fun js_mul :: "jsnum \<Rightarrow> jsnum \<Rightarrow> jsnum" where
  "js_mul NaN b = NaN"
| "js_mul a NaN = NaN"
| "js_mul (Fin x) (Fin y) = Fin (x * y)"
| "js_mul a b = (if js_sign a * js_sign b = 0 then NaN else signed_inf (js_sign a * js_sign b))"

text \<open>
  Division never raises in JavaScript: a finite non-zero number over zero is an infinity,
  zero over zero is \<open>NaN\<close>. (The zero divisor is taken as \<open>+0\<close>.)
\<close>

fun js_div :: "jsnum \<Rightarrow> jsnum \<Rightarrow> jsnum" where
  "js_div NaN b = NaN"
| "js_div a NaN = NaN"
| "js_div (Fin x) (Fin y) =
     (if y = 0 then (if x = 0 then NaN else signed_inf (js_sign (Fin x))) else Fin (x / y))"
| "js_div (Fin x) b = Fin 0"
| "js_div a (Fin y) = signed_inf (js_sign a * (if y < 0 then - 1 else 1))"
| "js_div a b = NaN"

text \<open>\<open>Math.max(...xs)\<close> and \<open>Math.min(...xs)\<close>: \<open>NaN\<close> as soon as one argument is.\<close>

definition js_max2 :: "jsnum \<Rightarrow> jsnum \<Rightarrow> jsnum" where
  "js_max2 a b = (if a = NaN \<or> b = NaN then NaN else if js_lt a b then b else a)"

definition js_min2 :: "jsnum \<Rightarrow> jsnum \<Rightarrow> jsnum" where
  "js_min2 a b = (if a = NaN \<or> b = NaN then NaN else if js_lt b a then b else a)"

definition Math_max :: "jsnum list \<Rightarrow> jsnum" where
  "Math_max xs = foldl js_max2 NegInf xs"

definition Math_min :: "jsnum list \<Rightarrow> jsnum" where
  "Math_min xs = foldl js_min2 PosInf xs"

section \<open>Field formats\<close>

text \<open>
  The declarations of \<open>app/types/ChartConfig\<close> are not among the sources. The format
  types are the members of \<open>FieldFormatType\<close> the code names, and \<open>CUSTOM\<close> for any other
  member. A per-type entry \<open>format[formatType]\<close> carries the options the formatters read.
\<close>

datatype FieldFormatType = DEFAULT | NUMERIC | CURRENCY | PERCENTAGE | SCIENTIFIC | DATE | CUSTOM

record sub_config =
  decimalPlaces :: "jsnum option"
  unitKey :: "string option"
  useThousandSeparator :: "bool option"
  prefix :: "string option"
  suffix :: "string option"
  currency :: "string option"
  pattern :: "string option"

text \<open>\<open>formatType\<close> is the \<open>type\<close> property; \<open>entry t\<close> is \<open>format[t]\<close>; \<open>pattern\<close> is a date entry's \<open>format\<close>.\<close>

record IFieldFormatConfig =
  formatType :: "FieldFormatType option"
  entry :: "FieldFormatType \<Rightarrow> sub_config option"

text \<open>
  A field of a data section (\<open>ChartDataSectionField\<close>, declared in a module that is not
  among the sources) with the properties the helpers read. \<open>fieldType\<close> is the \<open>type\<close>
  property, \<open>sortAction\<close> the \<open>sort\<close> property and \<open>aliasName\<close> is \<open>alias?.name\<close>.
\<close>

datatype SortActionType = NONE | ASC | DESC | CUSTOMIZE

record sort_config =
  sortType :: SortActionType
  sortValue :: "jsval list option"

record field =
  uid :: "string option"
  colName :: string
  fieldType :: string
  category :: "string option"
  aggregate :: "string option"
  aliasName :: "string option"
  format :: "IFieldFormatConfig option"
  sortAction :: "sort_config option"

datatype error = TypeError | RangeError

text \<open>
  What the helpers take from the language runtime, from libraries and from modules that
  are not among the sources: string to number conversion, number printing,
  \<open>Intl.NumberFormat\<close> (which raises \<open>RangeError\<close> on options it rejects), \<open>moment\<close>, the
  thousands-separator regular expression, the table \<open>NumericUnitDescriptions\<close> with the
  key \<open>NumberUnitKey.None\<close> of \<open>globalConstants\<close>, \<open>meanValue\<close> of \<open>utils/object\<close>,
  \<open>getColumnRenderOriginName\<close> of \<open>internalChartHelper\<close>, and the constants
  \<open>ChartDataViewFieldCategory.AggregateComputedField\<close>,
  \<open>ChartDataSectionFieldActionType.Aggregate\<close> and \<open>.AggregateLimit\<close> and the table
  \<open>AggregateFieldSubAggregateType\<close> of the type modules.
\<close>

record externals =
  strToNumber :: "string \<Rightarrow> jsnum"
  objToNumber :: "jsval \<Rightarrow> jsnum"
  toStr :: "jsval \<Rightarrow> string"
  toFixed :: "jsnum \<Rightarrow> jsnum \<Rightarrow> string"
  toExponential :: "jsnum \<Rightarrow> jsnum \<Rightarrow> string"
  thousands :: "string \<Rightarrow> string"
  currencyFormat :: "string \<Rightarrow> jsnum option \<Rightarrow> bool option \<Rightarrow> jsnum \<Rightarrow> error + string"
  momentFormat :: "jsval \<Rightarrow> string \<Rightarrow> string"
  NumericUnitDescriptions :: "string \<Rightarrow> (jsnum \<times> string) option"
  NumberUnitKey_None :: string
  meanValue :: "jsnum list \<Rightarrow> jsnum"
  getColumnRenderOriginName :: "field \<Rightarrow> string"
  AggregateComputedField :: string
  ActionType_Aggregate :: string
  ActionType_AggregateLimit :: string
  AggregateFieldSubAggregateType :: "string \<Rightarrow> string list option"

text \<open>ToNumber (the unary \<open>+\<close>) and ToString (template literals, \<open>toString()\<close>).\<close>

fun to_number :: "externals \<Rightarrow> jsval \<Rightarrow> jsnum" where
  "to_number X JUndefined = NaN"
| "to_number X JNull = Fin 0"
| "to_number X (JBool b) = Fin (if b then 1 else 0)"
| "to_number X (JNum n) = n"
| "to_number X (JStr s) = strToNumber X s"
| "to_number X v = objToNumber X v"

fun to_string :: "externals \<Rightarrow> jsval \<Rightarrow> string" where
  "to_string X JUndefined = ''undefined''"
| "to_string X JNull = ''null''"
| "to_string X (JBool b) = (if b then ''true'' else ''false'')"
| "to_string X (JStr s) = s"
| "to_string X v = toStr X v"

text \<open>The global \<open>isNaN(v)\<close> converts first.\<close>

definition isNaN :: "externals \<Rightarrow> jsval \<Rightarrow> bool" where
  "isNaN X v = (to_number X v = NaN)"

text \<open>
  Modelled from the spec: \<open>isEmpty\<close> and \<open>pipe\<close> of \<open>utils/object\<close> are not among the
  sources. The spec speaks of pure functions chained with \<open>pipe\<close>:
  \<open>pipe(f, g, ...)(value, config)\<close> applies the functions from left to right, each to the
  previous result and the same \<open>config\<close>; an exception ends the chain. \<open>isEmpty\<close>, by its
  name and use, is true on \<open>null\<close> and \<open>undefined\<close>, that is on an absent option.
\<close>

definition isEmpty :: "'a option \<Rightarrow> bool" where
  "isEmpty x = (x = None)"

fun pipe :: "('v \<Rightarrow> 'c \<Rightarrow> error + 'v) list \<Rightarrow> 'v \<Rightarrow> 'c \<Rightarrow> error + 'v" where
  "pipe [] v c = Inr v"
| "pipe (f # fs) v c = (case f v c of Inl e \<Rightarrow> Inl e | Inr v' \<Rightarrow> pipe fs v' c)"

text \<open>
  \<open>NumericUnitDescriptions.get(config?.unitKey!)?.[0] || 1\<close>, the divisor that
  \<open>unitFormater\<close> and \<open>currencyFormater\<close> both compute.
\<close>

definition realUnit :: "externals \<Rightarrow> string option \<Rightarrow> jsnum" where
  "realUnit X k =
     (case (case k of None \<Rightarrow> None | Some u \<Rightarrow> NumericUnitDescriptions X u) of
        None \<Rightarrow> Fin 1
      | Some d \<Rightarrow> if truthy (JNum (fst d)) then fst d else Fin 1)"

text \<open>\<open>NumericUnitDescriptions.get(config?.unitKey || NumberUnitKey.None)?.[1]\<close>.\<close>

definition unitSymbol :: "externals \<Rightarrow> string option \<Rightarrow> string option" where
  "unitSymbol X k =
     map_option snd (NumericUnitDescriptions X
       (case k of None \<Rightarrow> NumberUnitKey_None X
        | Some u \<Rightarrow> if u = [] then NumberUnitKey_None X else u))"

definition unitFormater :: "externals \<Rightarrow> jsval \<Rightarrow> sub_config \<Rightarrow> jsval" where
  "unitFormater X v config =
     (if isEmpty (unitKey config) then v
      else if isNaN X v then v
      else JNum (js_div (to_number X v) (realUnit X (unitKey config))))"

definition decimalPlacesFormater :: "externals \<Rightarrow> jsval \<Rightarrow> sub_config \<Rightarrow> jsval" where
  "decimalPlacesFormater X v config =
     (case decimalPlaces config of
        None \<Rightarrow> v
      | Some dp \<Rightarrow>
          if isNaN X v then v
          else if js_lt dp (Fin 0) \<or> js_lt (Fin 100) dp then v
          else JStr (toFixed X (to_number X v) dp))"

definition thousandSeperatorFormater :: "externals \<Rightarrow> jsval \<Rightarrow> sub_config \<Rightarrow> jsval" where
  "thousandSeperatorFormater X v config =
     (if isNaN X v \<or> useThousandSeparator config \<noteq> Some True then v
      else JStr (thousands X (to_string X v)))"

text \<open>\<open>Array.prototype.join\<close> prints \<open>null\<close> and \<open>undefined\<close> as the empty string.\<close>

definition join_elem :: "externals \<Rightarrow> jsval \<Rightarrow> string" where
  "join_elem X v = (if v = JUndefined \<or> v = JNull then [] else to_string X v)"

definition numericFormater :: "externals \<Rightarrow> jsval \<Rightarrow> sub_config \<Rightarrow> jsval" where
  "numericFormater X v config =
     (if isNaN X v then v
      else JStr (concat
        [case prefix config of None \<Rightarrow> [] | Some p \<Rightarrow> p,
         join_elem X (thousandSeperatorFormater X v config),
         case unitSymbol X (unitKey config) of None \<Rightarrow> [] | Some u \<Rightarrow> u,
         case suffix config of None \<Rightarrow> [] | Some p \<Rightarrow> p]))"

definition currencyFormater :: "externals \<Rightarrow> jsval \<Rightarrow> sub_config \<Rightarrow> error + jsval" where
  "currencyFormater X v config =
     (if isNaN X v then Inr v
      else
        case currencyFormat X
               (case currency config of None \<Rightarrow> ''CNY'' | Some c \<Rightarrow> if c = [] then ''CNY'' else c)
               (decimalPlaces config) (useThousandSeparator config)
               (js_div (to_number X v) (realUnit X (unitKey config))) of
          Inl e \<Rightarrow> Inl e
        | Inr s \<Rightarrow>
            Inr (JStr (s @ '' '' @
              (case unitSymbol X (unitKey config) of None \<Rightarrow> ''undefined'' | Some u \<Rightarrow> u))))"

text \<open>The digits \<open>percentageFormater\<close> and \<open>scientificNotationFormater\<close> print: the configured ones within \<open>0..20\<close>, else \<open>0\<close>.\<close>

definition fractionDigits :: "sub_config \<Rightarrow> jsnum" where
  "fractionDigits config =
     (case decimalPlaces config of
        None \<Rightarrow> Fin 0
      | Some dp \<Rightarrow> if js_le (Fin 0) dp \<and> js_le dp (Fin 20) then dp else Fin 0)"

definition percentageFormater :: "externals \<Rightarrow> jsval \<Rightarrow> sub_config \<Rightarrow> jsval" where
  "percentageFormater X v config =
     (if isNaN X v then v
      else JStr (toFixed X (js_mul (to_number X v) (Fin 100)) (fractionDigits config) @ ''%''))"

definition scientificNotationFormater :: "externals \<Rightarrow> jsval \<Rightarrow> sub_config \<Rightarrow> jsval" where
  "scientificNotationFormater X v config =
     (if isNaN X v then v
      else JStr (toExponential X (to_number X v) (fractionDigits config)))"

definition dateFormater :: "externals \<Rightarrow> jsval \<Rightarrow> sub_config \<Rightarrow> jsval" where
  "dateFormater X v config =
     (case pattern config of
        None \<Rightarrow> v
      | Some f \<Rightarrow> if isNaN X v then v else JStr (momentFormat X v f))"

text \<open>A formatter that cannot raise, as a step of \<open>pipe\<close>.\<close>

definition pure :: "('v \<Rightarrow> 'c \<Rightarrow> 'v) \<Rightarrow> 'v \<Rightarrow> 'c \<Rightarrow> error + 'v" where
  "pure f v c = Inr (f v c)"

definition toFormattedValue ::
  "externals \<Rightarrow> jsval \<Rightarrow> IFieldFormatConfig option \<Rightarrow> error + jsval" where
  "toFormattedValue X v fmt =
     (if v = JNull \<or> v = JUndefined then Inr (JStr ''-'')
      else case fmt of
        None \<Rightarrow> Inr v
      | Some fm \<Rightarrow>
          if formatType fm = Some DEFAULT then Inr v
          else case formatType fm of
            None \<Rightarrow> Inr v
          | Some ft \<Rightarrow>
              if (case v of JStr s \<Rightarrow> ft \<noteq> DATE \<and> (s = [] \<or> isNaN X v) | _ \<Rightarrow> False)
              then Inr v
              else case entry fm ft of
                None \<Rightarrow> Inr v
              | Some config \<Rightarrow>
                  (case ft of
                     NUMERIC \<Rightarrow>
                       pipe [pure (unitFormater X), pure (decimalPlacesFormater X),
                             pure (numericFormater X)] v config
                   | CURRENCY \<Rightarrow> pipe [currencyFormater X] v config
                   | PERCENTAGE \<Rightarrow> pipe [pure (percentageFormater X)] v config
                   | SCIENTIFIC \<Rightarrow> pipe [pure (scientificNotationFormater X)] v config
                   | DATE \<Rightarrow> pipe [pure (dateFormater X)] v config
                   | _ \<Rightarrow> Inr v))"

section \<open>Mark lines\<close>

text \<open>A row of the data set (\<open>IChartDataSetRow\<close>) is given by its method \<open>getCell\<close>.\<close>

type_synonym dataset_row = "field \<Rightarrow> jsval"

definition getValueByColumnKey :: "field option \<Rightarrow> string" where
  "getValueByColumnKey f =
     (case f of
        None \<Rightarrow> []
      | Some fd \<Rightarrow>
          (case aggregate fd of
             None \<Rightarrow> colName fd
           | Some a \<Rightarrow> if a = [] then colName fd else a @ ''('' @ colName fd @ '')''))"

text \<open>A configuration node as the JavaScript object it is.\<close>

fun config_js :: "config \<Rightarrow> jsval" where
  "config_js (Config k l v rs) =
     JObj ([(''key'', JStr k), (''label'', l), (''value'', v)] @
           (case rs of None \<Rightarrow> [] | Some cs \<Rightarrow> [(''rows'', JArr (map config_js cs))]))"

fun the_value :: "field_value \<Rightarrow> jsval" where
  "the_value (Value v) = v"
| "the_value (Rows rs) = JArr (map config_js rs)"

text \<open>\<open>getSettingValue(mark.rows, name, 'value')\<close>.\<close>

definition markSetting :: "config list option \<Rightarrow> string \<Rightarrow> jsval" where
  "markSetting rs name = the_value (getSettingValue rs name (Some ''value''))"

text \<open>\<open>dataConfig.uid === metricUid\<close>, where the \<open>uid\<close> is a string or \<open>undefined\<close>.\<close>

definition uid_is :: "string option \<Rightarrow> jsval \<Rightarrow> bool" where
  "uid_is u v = (case u of None \<Rightarrow> v = JUndefined | Some i \<Rightarrow> v = JStr i)"

text \<open>
  The four mark functions contain the same \<open>switch (valueType)\<close> over \<open>let yAxis = 0\<close>; it is
  written once here.
\<close>

definition switchValueType :: "externals \<Rightarrow> jsval \<Rightarrow> jsval \<Rightarrow> jsnum list \<Rightarrow> jsval" where
  "switchValueType X valueType constantValue metricDatas =
     (if valueType = JStr ''constant'' then constantValue
      else if valueType = JStr ''average'' then JNum (meanValue X metricDatas)
      else if valueType = JStr ''max'' then JNum (Math_max metricDatas)
      else if valueType = JStr ''min'' then JNum (Math_min metricDatas)
      else JNum (Fin 0))"

text \<open>Decimal digits of an array index, for the keys a spread array or string gets.\<close>

function nat_str :: "nat \<Rightarrow> string" where
  "nat_str n = (if n < 10 then [char_of (48 + n)] else nat_str (n div 10) @ [char_of (48 + n mod 10)])"
  by pat_completeness auto
termination
  by (relation "measure id") auto

declare nat_str.simps [simp del]

text \<open>
  \<open>{...base, ...v}\<close>: the own enumerable properties of \<open>v\<close> are written over the object
  built so far; \<open>null\<close>, \<open>undefined\<close>, numbers and booleans have none.
\<close>

fun own_props :: "jsval \<Rightarrow> (string \<times> jsval) list" where
  "own_props (JObj kvs) = kvs"
| "own_props (JArr xs) = map (\<lambda>i. (nat_str i, xs ! i)) [0..<length xs]"
| "own_props (JStr s) = map (\<lambda>i. (nat_str i, JStr [s ! i])) [0..<length s]"
| "own_props v = []"

definition object_spread :: "(string \<times> jsval) list \<Rightarrow> jsval \<Rightarrow> (string \<times> jsval) list" where
  "object_spread base v = foldl (\<lambda>obj kv. AList.update (fst kv) (snd kv) obj) base (own_props v)"

definition getMarkLineData ::
  "externals \<Rightarrow> config \<Rightarrow> (string \<times> jsval) list list \<Rightarrow> string \<Rightarrow> string \<Rightarrow> string \<Rightarrow>
   field option \<Rightarrow> bool \<Rightarrow> error + jsval" where
  "getMarkLineData X mark dataColumns valueTypeKey constantValueKey metricKey dataConfig
     isHorizonDisplay =
     (let name = label mark;
          valueKey = (if isHorizonDisplay then ''xAxis'' else ''yAxis'');
          show = markSetting (rows mark) ''showLabel'';
          enableMarkLine = markSetting (rows mark) ''enableMarkLine'';
          position = markSetting (rows mark) ''position'';
          font = markSetting (rows mark) ''font'';
          lineStyle = markSetting (rows mark) ''lineStyle'';
          valueType = markSetting (rows mark) valueTypeKey;
          metricUid = markSetting (rows mark) metricKey;
          metr = getValueByColumnKey dataConfig
      in case dataConfig of
           None \<Rightarrow> Inl TypeError
         | Some dc \<Rightarrow>
             let metricDatas =
                   (if uid_is (uid dc) metricUid
                    then map (\<lambda>d. to_number X
                           (case map_of d metr of None \<Rightarrow> JUndefined | Some c \<Rightarrow> c)) dataColumns
                    else []);
                 constantValue = markSetting (rows mark) constantValueKey;
                 yAxis = switchValueType X valueType constantValue metricDatas
             in if \<not> truthy enableMarkLine then Inr JNull
                else Inr (JObj
                  [(valueKey, yAxis),
                   (''name'', name),
                   (''label'', JObj (object_spread [(''show'', show), (''position'', position)] font)),
                   (''lineStyle'', lineStyle)]))"

definition getMarkLineData2 ::
  "externals \<Rightarrow> config \<Rightarrow> dataset_row list \<Rightarrow> string \<Rightarrow> string \<Rightarrow> string \<Rightarrow>
   field option \<Rightarrow> bool \<Rightarrow> error + jsval" where
  "getMarkLineData2 X mark dataSetRows valueTypeKey constantValueKey metricKey dataConfig
     isHorizonDisplay =
     (let name = label mark;
          valueKey = (if isHorizonDisplay then ''xAxis'' else ''yAxis'');
          show = markSetting (rows mark) ''showLabel'';
          enableMarkLine = markSetting (rows mark) ''enableMarkLine'';
          position = markSetting (rows mark) ''position'';
          font = markSetting (rows mark) ''font'';
          lineStyle = markSetting (rows mark) ''lineStyle'';
          valueType = markSetting (rows mark) valueTypeKey;
          metricUid = markSetting (rows mark) metricKey
      in case dataConfig of
           None \<Rightarrow> Inl TypeError
         | Some dc \<Rightarrow>
             let metricDatas =
                   (if uid_is (uid dc) metricUid
                    then map (\<lambda>d. to_number X (d dc)) dataSetRows
                    else []);
                 constantValue = markSetting (rows mark) constantValueKey;
                 yAxis = switchValueType X valueType constantValue metricDatas
             in if \<not> truthy enableMarkLine then Inr JNull
                else Inr (JObj
                  [(valueKey, yAxis),
                   (''name'', name),
                   (''label'', JObj (object_spread [(''show'', show), (''position'', position)] font)),
                   (''lineStyle'', lineStyle)]))"

section \<open>Mark areas\<close>

text \<open>\<open>Number.isFinite(v)\<close>: a number that is neither \<open>NaN\<close> nor an infinity.\<close>

fun Number_isFinite :: "jsval \<Rightarrow> bool" where
  "Number_isFinite (JNum (Fin x)) = True"
| "Number_isFinite v = False"

definition Number_isNaN :: "jsval \<Rightarrow> bool" where
  "Number_isNaN v = (v = JNum NaN)"

text \<open>
  \<open>getMarkAreaData2\<close> returns \<open>undefined\<close> for no boundary point. Reading \<open>mark.rows\<close> of
  an \<open>undefined\<close> mark, \<open>dataConfig.uid\<close> of an absent data configuration, or
  \<open>borderStyle.color\<close> of an absent border style raises \<open>TypeError\<close>.
\<close>

definition getMarkAreaData2 ::
  "externals \<Rightarrow> config option \<Rightarrow> dataset_row list \<Rightarrow> string \<Rightarrow> string \<Rightarrow> string \<Rightarrow>
   field option \<Rightarrow> bool \<Rightarrow> error + jsval" where
  "getMarkAreaData2 X mark dataSetRows valueTypeKey constantValueKey metricKey dataConfig
     isHorizonDisplay =
     (case mark of
        None \<Rightarrow> Inl TypeError
      | Some m \<Rightarrow>
        let metric = markSetting (rows m) metricKey;
            valueKey = (if isHorizonDisplay then ''xAxis'' else ''yAxis'');
            show = markSetting (rows m) ''showLabel'';
            enableMarkArea = markSetting (rows m) ''enableMarkArea'';
            position = markSetting (rows m) ''position'';
            font = markSetting (rows m) ''font'';
            borderStyle = markSetting (rows m) ''borderStyle'';
            opacity = markSetting (rows m) ''opacity'';
            backgroundColor = markSetting (rows m) ''backgroundColor'';
            name = val m;
            valueType = markSetting (rows m) valueTypeKey
        in case dataConfig of
             None \<Rightarrow> Inl TypeError
           | Some dc \<Rightarrow>
               let metricDatas =
                     (if uid_is (uid dc) metric
                      then map (\<lambda>d. to_number X (d dc)) dataSetRows
                      else []);
                   constantValue = markSetting (rows m) constantValueKey;
                   yAxis = switchValueType X valueType constantValue metricDatas
               in if \<not> truthy enableMarkArea \<or> \<not> Number_isFinite yAxis \<or> Number_isNaN yAxis
                  then Inr JUndefined
                  else if borderStyle = JUndefined \<or> borderStyle = JNull then Inl TypeError
                  else Inr (JObj
                    [(valueKey, yAxis),
                     (''name'', name),
                     (''label'',
                        JObj (object_spread [(''show'', show), (''position'', position)] font)),
                     (''itemStyle'', JObj
                        [(''opacity'', opacity),
                         (''color'', backgroundColor),
                         (''borderColor'', js_get borderStyle ''color''),
                         (''borderWidth'', js_get borderStyle ''width''),
                         (''borderType'', js_get borderStyle ''type'')])]))"

text \<open>\<open>xs.map(f)\<close> where \<open>f\<close> may raise: the first exception ends the call.\<close>

fun traverse :: "('a \<Rightarrow> error + 'b) \<Rightarrow> 'a list \<Rightarrow> error + 'b list" where
  "traverse f [] = Inr []"
| "traverse f (x # xs) =
     (case f x of
        Inl e \<Rightarrow> Inl e
      | Inr y \<Rightarrow> (case traverse f xs of Inl e \<Rightarrow> Inl e | Inr ys \<Rightarrow> Inr (y # ys)))"

text \<open>
  The \<open>reduce\<close> of \<open>getMarkArea2\<close>: \<open>acc.concat(cur?.rows?.filter(...))\<close> appends the
  tab's \<open>markArea\<close> rows, and appends the element \<open>undefined\<close> for a tab without rows.
\<close>

definition refAreas :: "config list \<Rightarrow> config option list" where
  "refAreas refTabs =
     foldl (\<lambda>acc cur. acc @
              (case rows cur of
                 None \<Rightarrow> [None]
               | Some rs \<Rightarrow> map Some (filter (\<lambda>r. key r = ''markArea'') rs)))
       [] refTabs"

text \<open>The two boundary points of one mark, after \<open>.filter(Boolean)\<close>.\<close>

definition markAreaData ::
  "externals \<Rightarrow> dataset_row list \<Rightarrow> field option \<Rightarrow> bool \<Rightarrow> config option \<Rightarrow> error + jsval list" where
  "markAreaData X dataSetRows dataConfig isHorizonDisplay mark =
     (case traverse (\<lambda>prefix. getMarkAreaData2 X mark dataSetRows (prefix @ ''ValueType'')
                       (prefix @ ''ConstantValue'') (prefix @ ''Metric'') dataConfig
                       isHorizonDisplay) [''start'', ''end''] of
        Inl e \<Rightarrow> Inl e
      | Inr ps \<Rightarrow> Inr (filter truthy ps))"

text \<open>The \<open>data\<close> of the object \<open>getMarkArea2\<close> returns; \<open>undefined\<close> when \<open>refTabs\<close> is.\<close>

definition getMarkArea2 ::
  "externals \<Rightarrow> config list option \<Rightarrow> dataset_row list \<Rightarrow> field option \<Rightarrow> bool \<Rightarrow>
   error + jsval list list option" where
  "getMarkArea2 X refTabs dataSetRows dataConfig isHorizonDisplay =
     (case refTabs of
        None \<Rightarrow> Inr None
      | Some tabs \<Rightarrow>
          (case traverse (markAreaData X dataSetRows dataConfig isHorizonDisplay) (refAreas tabs) of
             Inl e \<Rightarrow> Inl e
           | Inr areas \<Rightarrow> Inr (Some (filter (\<lambda>m. length m = 2) areas))))"

section \<open>The scatter symbol size\<close>

text \<open>
  \<open>getScatterSymbolSizeFn\<close> first lowers \<open>min\<close> to \<open>Math.min(0, min)\<close>; \<open>scatterMin\<close> is
  that reassigned \<open>min\<close> and \<open>scatterDistance\<close> the local constant \<open>distance\<close>, the divisor
  of the returned function. \<open>max\<close> and \<open>min\<close> are numbers.
\<close>

definition scatterMin :: "jsnum \<Rightarrow> jsnum" where
  "scatterMin mn = Math_min [Fin 0, mn]"

definition scatterDistance :: "jsnum \<Rightarrow> jsnum \<Rightarrow> jsnum" where
  "scatterDistance mx mn =
     (if js_sub mx (scatterMin mn) = Fin 0 then Fin 100 else js_sub mx (scatterMin mn))"

text \<open>\<open>val?.[valueIndex]\<close> on an array that may be absent.\<close>

definition opt_index :: "jsval list option \<Rightarrow> nat \<Rightarrow> jsval" where
  "opt_index v i =
     (case v of None \<Rightarrow> JUndefined
      | Some xs \<Rightarrow> if i < length xs then xs ! i else JUndefined)"

definition getScatterSymbolSizeFn ::
  "externals \<Rightarrow> nat \<Rightarrow> jsnum \<Rightarrow> jsnum \<Rightarrow> jsnum option \<Rightarrow> jsval list option \<Rightarrow> jsnum" where
  "getScatterSymbolSizeFn X valueIndex mx mn cycleRatio =
     (let scaleRatio = (case cycleRatio of None \<Rightarrow> Fin 1
                        | Some r \<Rightarrow> if truthy (JNum r) then r else Fin 1);
          defaultScatterPointPixelSize = Fin 10;
          distance = scatterDistance mx mn
      in (\<lambda>v. Math_max
            [Fin 3,
             js_mul
               (js_mul
                  (js_mul
                     (js_div (js_sub (to_number X (opt_index v valueIndex)) (scatterMin mn))
                        distance)
                     scaleRatio)
                  defaultScatterPointPixelSize)
               (Fin 2)]))"

section \<open>Tooltips\<close>








subsection \<open>The tooltip, as the specification words it\<close>




section \<open>The drag target container\<close>

text \<open>
  The section a container edits (\<open>currentConfig\<close>): \<open>sectionType\<close> is its \<open>type\<close> and
  \<open>sectionRows\<close> its \<open>rows\<close>. \<open>actions\<close> is absent, an array, or an object from field types
  to action lists.
\<close>

datatype ChartDataSectionType = GROUP | AGGREGATE | MIXED | FILTER | COLOR | INFO | SIZE







text \<open>\<open>Array.prototype.findIndex\<close>: the first index that satisfies the test, or \<open>-1\<close>.\<close>

fun findIndex :: "('a \<Rightarrow> bool) \<Rightarrow> 'a list \<Rightarrow> int" where
  "findIndex P [] = - 1"
| "findIndex P (x # xs) =
     (if P x then 0 else if findIndex P xs < 0 then - 1 else findIndex P xs + 1)"





section \<open>Custom sort and row moves\<close>










subsection \<open>The fields a custom sort is read from\<close>


subsection \<open>Moving one element\<close>


section \<open>A concrete environment\<close>

text \<open>
  One choice of the external functions, for evaluating the helpers on concrete inputs:
  the strings \<open>12\<close> and \<open>0.5\<close> are numeric, the unit table knows \<open>thousand\<close> (1000, K),
  a unit \<open>zero\<close> whose divisor is \<open>0\<close>, and the key \<open>none\<close>.
\<close>

definition sample_externals :: externals where
  "sample_externals =
     \<lparr> strToNumber = (\<lambda>s. if s = ''12'' then Fin 12 else if s = ''0.5'' then Fin (1 / 2) else NaN),
       objToNumber = (\<lambda>v. NaN),
       toStr = (\<lambda>v. ''#''),
       toFixed = (\<lambda>n d. ''#''),
       toExponential = (\<lambda>n d. ''#''),
       thousands = (\<lambda>s. s),
       currencyFormat = (\<lambda>c d g n. Inr ''#''),
       momentFormat = (\<lambda>v f. f),
       NumericUnitDescriptions =
         (\<lambda>k. if k = ''thousand'' then Some (Fin 1000, ''K'')
              else if k = ''zero'' then Some (Fin 0, ''Z'')
              else if k = ''none'' then Some (Fin 1, [])
              else None),
       NumberUnitKey_None = ''none'',
       meanValue = (\<lambda>xs. Fin 0),
       getColumnRenderOriginName = colName,
       AggregateComputedField = ''aggregateComputedField'',
       ActionType_Aggregate = ''aggregate'',
       ActionType_AggregateLimit = ''aggregateLimit'',
       AggregateFieldSubAggregateType =
         (\<lambda>k. if k = ''aggregate'' then Some [''SUM'', ''AVG''] else None) \<rparr>"

definition sample_mark :: config where
  "sample_mark =
     Config ''markLine'' (JStr ''peak'') JUndefined
       (Some [Config ''enableMarkLine'' JUndefined (JBool True) None,
              Config ''valueType'' JUndefined (JStr ''max'') None,
              Config ''constantValue'' JUndefined (JNum (Fin 4)) None,
              Config ''metric'' JUndefined (JStr ''u1'') None])"

definition sample_field :: field where
  "sample_field =
     \<lparr> uid = Some ''u1'', colName = ''amount'', fieldType = ''NUMERIC'', category = None,
       aggregate = Some ''SUM'', aliasName = None, format = None, sortAction = None \<rparr>"

definition sample_area :: config where
  "sample_area =
     Config ''markArea'' JUndefined (JStr ''band'')
       (Some [Config ''enableMarkArea'' JUndefined (JBool True) None,
              Config ''startValueType'' JUndefined (JStr ''constant'') None,
              Config ''startConstantValue'' JUndefined (JNum (Fin 2)) None,
              Config ''endValueType'' JUndefined (JStr ''max'') None,
              Config ''endMetric'' JUndefined (JStr ''u1'') None,
              Config ''borderStyle'' JUndefined (JObj [(''color'', JStr ''red'')]) None])"

definition sample_tabs :: "config list" where
  "sample_tabs = [Config ''reference'' JUndefined JUndefined (Some [sample_area, sample_mark])]"







definition sample_points :: "jsval list" where
  "sample_points =
     [JObj [(''yAxis'', JNum (Fin 2)), (''name'', JStr ''band''),
            (''label'', JObj [(''show'', JUndefined), (''position'', JUndefined)]),
            (''itemStyle'', JObj [(''opacity'', JUndefined), (''color'', JUndefined),
               (''borderColor'', JStr ''red''), (''borderWidth'', JUndefined),
               (''borderType'', JUndefined)])],
      JObj [(''yAxis'', JNum (Fin 8)), (''name'', JStr ''band''),
            (''label'', JObj [(''show'', JUndefined), (''position'', JUndefined)]),
            (''itemStyle'', JObj [(''opacity'', JUndefined), (''color'', JUndefined),
               (''borderColor'', JStr ''red''), (''borderWidth'', JUndefined),
               (''borderType'', JUndefined)])]]"

section \<open>What a mark line is to be, as the specification words it\<close>

text \<open>
  No entry (\<open>null\<close>) unless \<open>enableMarkLine\<close> is set. An entry carries the derived value
  under \<open>xAxis\<close> when the display is horizontal and under \<open>yAxis\<close> otherwise, and nothing
  under the other key. The derived value is the configured constant for type \<open>constant\<close>;
  for \<open>average\<close>, \<open>max\<close> and \<open>min\<close> it is that reduction of the metric column's numbers
  when the data configuration's \<open>uid\<close> is the mark's metric.
\<close>

definition markLineSpec ::
  "externals \<Rightarrow> jsval \<Rightarrow> jsval \<Rightarrow> jsval \<Rightarrow> bool \<Rightarrow> jsnum list \<Rightarrow> bool \<Rightarrow> error + jsval \<Rightarrow> bool" where
  "markLineSpec X enableMarkLine valueType constantValue uidMatches values horizontal r =
     (if \<not> truthy enableMarkLine then r = Inr JNull
      else case r of
        Inl e \<Rightarrow> False
      | Inr ent \<Rightarrow>
          ent \<noteq> JNull
          \<and> js_get ent (if horizontal then ''yAxis'' else ''xAxis'') = JUndefined
          \<and> (valueType = JStr ''constant'' \<longrightarrow>
               js_get ent (if horizontal then ''xAxis'' else ''yAxis'') = constantValue)
          \<and> (uidMatches \<and> valueType = JStr ''average'' \<longrightarrow>
               js_get ent (if horizontal then ''xAxis'' else ''yAxis'') = JNum (meanValue X values))
          \<and> (uidMatches \<and> valueType = JStr ''max'' \<longrightarrow>
               js_get ent (if horizontal then ''xAxis'' else ''yAxis'') = JNum (Math_max values))
          \<and> (uidMatches \<and> valueType = JStr ''min'' \<longrightarrow>
               js_get ent (if horizontal then ''xAxis'' else ''yAxis'') = JNum (Math_min values)))"

section \<open>Facts about the number operations\<close>


lemma foldl_js_max2_Fin: "foldl js_max2 (Fin a) (map Fin rs) = Fin (fold max rs a)"
  by (induction rs arbitrary: a) (auto simp: js_max2_def max_def)

lemma foldl_js_min2_Fin: "foldl js_min2 (Fin a) (map Fin rs) = Fin (fold min rs a)"
  by (induction rs arbitrary: a) (auto simp: js_min2_def min_def)

lemma Math_max_Fin: "rs \<noteq> [] \<Longrightarrow> Math_max (map Fin rs) = Fin (Max (set rs))"
proof (cases rs)
  case Nil
  then show "rs \<noteq> [] \<Longrightarrow> ?thesis" by simp
next
  case (Cons r rs')
  have "Math_max (map Fin rs) = foldl js_max2 (Fin r) (map Fin rs')"
    by (simp add: Math_max_def Cons js_max2_def)
  also have "\<dots> = Fin (fold max rs' r)"
    by (rule foldl_js_max2_Fin)
  also have "fold max rs' r = Max (set rs)"
    using Max.set_eq_fold [of r rs'] by (simp add: Cons)
  finally show ?thesis .
qed

lemma Math_min_Fin: "rs \<noteq> [] \<Longrightarrow> Math_min (map Fin rs) = Fin (Min (set rs))"
proof (cases rs)
  case Nil
  then show "rs \<noteq> [] \<Longrightarrow> ?thesis" by simp
next
  case (Cons r rs')
  have "Math_min (map Fin rs) = foldl js_min2 (Fin r) (map Fin rs')"
    by (simp add: Math_min_def Cons js_min2_def)
  also have "\<dots> = Fin (fold min rs' r)"
    by (rule foldl_js_min2_Fin)
  also have "fold min rs' r = Min (set rs)"
    using Min.set_eq_fold [of r rs'] by (simp add: Cons)
  finally show ?thesis .
qed

lemma realUnit_nonzero: "realUnit X k \<noteq> Fin 0 \<and> realUnit X k \<noteq> NaN"
  by (auto simp: realUnit_def split: option.splits)

lemma scatterDistance_nonzero: "scatterDistance mx mn \<noteq> Fin 0"
  by (simp add: scatterDistance_def)

section \<open>Facts about the mark functions\<close>

lemma getMarkLineData2_spec:
  "markLineSpec X (markSetting (rows mark) ''enableMarkLine'') (markSetting (rows mark) vtk)
      (markSetting (rows mark) cvk) (uid_is (uid dc) (markSetting (rows mark) mk))
      (map (\<lambda>d. to_number X (d dc)) dataSetRows) h
      (getMarkLineData2 X mark dataSetRows vtk cvk mk (Some dc) h)"
  by (simp add: markLineSpec_def getMarkLineData2_def Let_def switchValueType_def)

lemma getMarkLineData_spec:
  "markLineSpec X (markSetting (rows mark) ''enableMarkLine'') (markSetting (rows mark) vtk)
      (markSetting (rows mark) cvk) (uid_is (uid dc) (markSetting (rows mark) mk))
      (map (\<lambda>d. to_number X (case map_of d (getValueByColumnKey (Some dc)) of
                                None \<Rightarrow> JUndefined | Some c \<Rightarrow> c)) dataColumns) h
      (getMarkLineData X mark dataColumns vtk cvk mk (Some dc) h)"
  by (simp add: markLineSpec_def getMarkLineData_def Let_def switchValueType_def)

lemma traverse_Inr_mem:
  "traverse f xs = Inr ys \<Longrightarrow> y \<in> set ys \<Longrightarrow> \<exists>x \<in> set xs. f x = Inr y"
  by (induction xs arbitrary: ys) (auto split: sum.splits)

lemma markAreaData_two:
  assumes "markAreaData X ds dataConfig h mark = Inr area" and "length area = 2"
  shows "\<exists>s e. area = [s, e]
           \<and> getMarkAreaData2 X mark ds ''startValueType'' ''startConstantValue'' ''startMetric''
                dataConfig h = Inr s \<and> truthy s
           \<and> getMarkAreaData2 X mark ds ''endValueType'' ''endConstantValue'' ''endMetric''
                dataConfig h = Inr e \<and> truthy e"
  using assms by (auto simp: markAreaData_def split: sum.splits if_splits)

lemma getMarkArea2_areas:
  assumes "getMarkArea2 X refTabs ds dataConfig h = Inr (Some areas)" and "area \<in> set areas"
  shows "\<exists>tabs mark s e. refTabs = Some tabs \<and> mark \<in> set (refAreas tabs) \<and> area = [s, e]
           \<and> getMarkAreaData2 X mark ds ''startValueType'' ''startConstantValue'' ''startMetric''
                dataConfig h = Inr s \<and> truthy s
           \<and> getMarkAreaData2 X mark ds ''endValueType'' ''endConstantValue'' ''endMetric''
                dataConfig h = Inr e \<and> truthy e"
proof -
  from assms(1) obtain tabs all_areas where tabs: "refTabs = Some tabs"
    and tr: "traverse (markAreaData X ds dataConfig h) (refAreas tabs) = Inr all_areas"
    and areas: "areas = filter (\<lambda>m. length m = 2) all_areas"
    by (auto simp: getMarkArea2_def split: option.splits sum.splits)
  from assms(2) areas have mem: "area \<in> set all_areas" and len: "length area = 2"
    by auto
  from traverse_Inr_mem [OF tr mem] obtain mark where mark: "mark \<in> set (refAreas tabs)"
    and md: "markAreaData X ds dataConfig h mark = Inr area"
    by blast
  from markAreaData_two [OF md len] tabs mark show ?thesis by blast
qed

lemma getMarkAreaData2_point:
  assumes "getMarkAreaData2 X mark ds vtk cvk mk dataConfig h = Inr p" and "truthy p"
  shows "\<exists>m r. mark = Some m \<and> truthy (markSetting (rows m) ''enableMarkArea'')
           \<and> js_get p (if h then ''xAxis'' else ''yAxis'') = JNum (Fin r)"
proof -
  from assms obtain m dc where m: "mark = Some m" and dc: "dataConfig = Some dc"
    by (auto simp: getMarkAreaData2_def Let_def split: option.splits)
  let ?y = "switchValueType X (markSetting (rows m) vtk) (markSetting (rows m) cvk)
              (if uid_is (uid dc) (markSetting (rows m) mk)
               then map (\<lambda>d. to_number X (d dc)) ds else [])"
  from assms m dc have en: "truthy (markSetting (rows m) ''enableMarkArea'')"
    and fin: "Number_isFinite ?y"
    and y: "js_get p (if h then ''xAxis'' else ''yAxis'') = ?y"
    by (auto simp: getMarkAreaData2_def Let_def split: if_splits)
  from fin obtain r where "?y = JNum (Fin r)"
    by (cases ?y rule: Number_isFinite.cases) auto
  with en y m show ?thesis by auto
qed

section \<open>The sample configuration, evaluated\<close>

lemma str_split_no_dot: "CHR ''.'' \<notin> set s \<Longrightarrow> str_split s = [s]"
  by (induction s) auto

lemma markSetting_find:
  "CHR ''.'' \<notin> set name \<Longrightarrow>
   markSetting (Some rs) name =
     (case find (\<lambda>c. key c = name) rs of None \<Rightarrow> JUndefined | Some c \<Rightarrow> val c)"
  by (simp add: markSetting_def getSettingValue_def getValue_def getValue_while_walk
      walk_value_def str_split_no_dot split: option.split)

lemma sample_mark_rows:
  "rows sample_mark =
     Some [Config ''enableMarkLine'' JUndefined (JBool True) None,
           Config ''valueType'' JUndefined (JStr ''max'') None,
           Config ''constantValue'' JUndefined (JNum (Fin 4)) None,
           Config ''metric'' JUndefined (JStr ''u1'') None]"
  by (simp add: sample_mark_def)

lemma sample_area_rows:
  "rows sample_area =
     Some [Config ''enableMarkArea'' JUndefined (JBool True) None,
           Config ''startValueType'' JUndefined (JStr ''constant'') None,
           Config ''startConstantValue'' JUndefined (JNum (Fin 2)) None,
           Config ''endValueType'' JUndefined (JStr ''max'') None,
           Config ''endMetric'' JUndefined (JStr ''u1'') None,
           Config ''borderStyle'' JUndefined (JObj [(''color'', JStr ''red'')]) None]"
  by (simp add: sample_area_def)

lemma sample_enableMarkLine: "markSetting (rows sample_mark) ''enableMarkLine'' = JBool True"
  by (simp add: sample_mark_rows markSetting_find)

lemma sample_valueType: "markSetting (rows sample_mark) ''valueType'' = JStr ''max''"
  by (simp add: sample_mark_rows markSetting_find)

lemma sample_metric: "markSetting (rows sample_mark) ''metric'' = JStr ''u1''"
  by (simp add: sample_mark_rows markSetting_find)

lemma sample_enableMarkArea: "markSetting (rows sample_mark) ''enableMarkArea'' = JUndefined"
  by (simp add: sample_mark_rows markSetting_find)

lemma sample_refAreas: "refAreas sample_tabs = [Some sample_area]"
  by (simp add: refAreas_def sample_tabs_def sample_area_def sample_mark_def)

lemma sample_markAreaData:
  "markAreaData sample_externals [\<lambda>f. JNum (Fin 3), \<lambda>f. JNum (Fin 8)] (Some sample_field) False
     (Some sample_area) = Inr sample_points"
  by (simp add: markAreaData_def getMarkAreaData2_def Let_def sample_area_rows markSetting_find
      switchValueType_def uid_is_def sample_field_def Math_max_def js_max2_def
      object_spread_def sample_points_def Number_isNaN_def)
    (simp add: sample_area_def)

lemma sample_getMarkArea2:
  "getMarkArea2 sample_externals (Some sample_tabs) [\<lambda>f. JNum (Fin 3), \<lambda>f. JNum (Fin 8)]
     (Some sample_field) False = Inr (Some [sample_points])"
  by (simp add: getMarkArea2_def sample_refAreas sample_markAreaData sample_points_def)

section \<open>Facts about arrays\<close>



lemma findIndex_range: "findIndex P xs < int (length xs) \<and> - 1 \<le> findIndex P xs"
  by (induction xs) auto






section \<open>Facts about the in-place helpers\<close>
























section \<open>Claims\<close>

text \<open>
  C1. For every configuration tree and every key path, \<open>getValue\<close> walks the path: at each
  level it finds the (first) node whose key is the next path element and descends into its
  rows, and it returns the \<open>targetKey\<close> field (\<open>'value'\<close> when none is given) of the node
  found for the last element. It returns \<open>undefined\<close> when an element matches no node or
  the tree runs out before the path does (\<open>walk\<close> finds no node). \<open>getSettingValue\<close>
  returns what \<open>getValue\<close> returns on the path split at the dots.
\<close>

theorem getValue_walks_path:
  "fst (getValue configs keyPaths targetKey) =
     walk_value (case configs of None \<Rightarrow> [] | Some cs \<Rightarrow> cs) keyPaths
       (case targetKey of None \<Rightarrow> ''value'' | Some t \<Rightarrow> t)
   \<and> getSettingValue configs path targetKey = fst (getValue configs (str_split path) targetKey)
   \<and> getSettingValue configs path targetKey =
     walk_value (case configs of None \<Rightarrow> [] | Some cs \<Rightarrow> cs) (str_split path)
       (case targetKey of None \<Rightarrow> ''value'' | Some t \<Rightarrow> t)"
  by (simp add: getValue_def getSettingValue_def getValue_while_walk)

text \<open>
  C8. \<open>hadAxisLabelOverflowConfig(options, horizon)\<close> returns \<open>true\<close> if and only if the
  axis label of the first \<open>xAxis\<close> (the first \<open>yAxis\<close> when \<open>horizon\<close> is true) exists and
  has a truthy \<open>show\<close>, a truthy \<open>overflow\<close> and an \<open>interval\<close> that is neither \<open>'auto'\<close>
  nor \<open>null\<close>; it returns \<open>false\<close> when \<open>options\<close> is absent or that axis label is absent.
\<close>

theorem hadAxisLabelOverflowConfig_iff:
  "(hadAxisLabelOverflowConfig options horizon = JBool True \<longleftrightarrow>
      firstAxisLabel options horizon \<noteq> JUndefined
      \<and> truthy (js_get (firstAxisLabel options horizon) ''show'')
      \<and> truthy (js_get (firstAxisLabel options horizon) ''overflow'')
      \<and> js_get (firstAxisLabel options horizon) ''interval'' \<noteq> JStr ''auto''
      \<and> js_get (firstAxisLabel options horizon) ''interval'' \<noteq> JNull)
   \<and> (\<not> truthy options \<longrightarrow> hadAxisLabelOverflowConfig options horizon = JBool False)
   \<and> (firstAxisLabel options horizon = JUndefined \<longrightarrow>
        hadAxisLabelOverflowConfig options horizon = JBool False)"
proof -
  let ?al = "firstAxisLabel options horizon"
  have falsy_al: "\<not> truthy ?al \<Longrightarrow> \<not> truthy (js_get ?al ''show'')"
    by (simp add: js_get_falsy)
  have falsy_opts: "\<not> truthy options \<Longrightarrow> ?al = JUndefined"
    by (simp add: firstAxisLabel_def js_get_falsy)
  have unfold: "hadAxisLabelOverflowConfig options horizon =
      (if \<not> truthy options then JBool False
       else if \<not> truthy ?al then JBool False
       else js_and (js_get ?al ''show'')
              (js_and (js_get ?al ''overflow'')
                 (JBool (getIntervalShow (js_get ?al ''interval'')))))"
    by (simp add: hadAxisLabelOverflowConfig_def firstAxisLabel_def Let_def)
  have a: "hadAxisLabelOverflowConfig options horizon = JBool True \<longleftrightarrow>
      ?al \<noteq> JUndefined
      \<and> truthy (js_get ?al ''show'')
      \<and> truthy (js_get ?al ''overflow'')
      \<and> js_get ?al ''interval'' \<noteq> JStr ''auto''
      \<and> js_get ?al ''interval'' \<noteq> JNull"
  proof (cases "truthy options")
    case False
    then show ?thesis using falsy_opts by (simp add: unfold)
  next
    case opts: True
    show ?thesis
    proof (cases "truthy ?al")
      case False
      then show ?thesis using falsy_al opts by (auto simp: unfold)
    next
      case True
      then have "?al \<noteq> JUndefined" by auto
      with True opts show ?thesis
        by (simp add: unfold js_and_True getIntervalShow_def)
    qed
  qed
  have b: "\<not> truthy options \<longrightarrow> hadAxisLabelOverflowConfig options horizon = JBool False"
    by (simp add: unfold)
  have c: "?al = JUndefined \<longrightarrow> hadAxisLabelOverflowConfig options horizon = JBool False"
    by (simp add: unfold)
  from a b c show ?thesis by blast
qed

theorem hadAxisLabelOverflowConfig_witness:
  "hadAxisLabelOverflowConfig
     (JObj [(''xAxis'', JArr [JObj [(''axisLabel'',
        JObj [(''show'', JBool True), (''overflow'', JStr ''truncate''),
              (''interval'', JNum (Fin 0))])]])]) False = JBool True
   \<and> hadAxisLabelOverflowConfig JUndefined False = JBool False
   \<and> hadAxisLabelOverflowConfig (JObj [(''xAxis'', JArr [])]) False = JBool False"
  using hadAxisLabelOverflowConfig_iff [of
      "JObj [(''xAxis'', JArr [JObj [(''axisLabel'',
        JObj [(''show'', JBool True), (''overflow'', JStr ''truncate''),
              (''interval'', JNum (Fin 0))])]])]" False]
    hadAxisLabelOverflowConfig_iff [of JUndefined False]
    hadAxisLabelOverflowConfig_iff [of "JObj [(''xAxis'', JArr [])]" False]
  by (simp add: firstAxisLabel_def)

text \<open>
  C9. Whatever the format configuration (also none at all), \<open>toFormattedValue\<close> returns
  the placeholder \<open>'-'\<close> when the value is \<open>null\<close> or \<open>undefined\<close>, before any format branch
  is looked at.
\<close>

theorem toFormattedValue_placeholder:
  "toFormattedValue X JNull fmt = Inr (JStr ''-'')
   \<and> toFormattedValue X JUndefined fmt = Inr (JStr ''-'')"
  by (simp add: toFormattedValue_def)

text \<open>
  C3, as stated: for every input value, \<open>toFormattedValue\<close> returns the value unchanged
  when the format configuration is absent. It does not for \<open>undefined\<close>, which becomes
  \<open>'-'\<close>.
\<close>

theorem toFormattedValue_raw_counterexample:
  "toFormattedValue sample_externals JUndefined None \<noteq> Inr JUndefined"
  by (simp add: toFormattedValue_def)

text \<open>
  C3, amended: for every input value other than \<open>null\<close> and \<open>undefined\<close>,
  \<open>toFormattedValue\<close> returns the value unchanged when the format configuration is absent,
  has type \<open>DEFAULT\<close>, has no type, or has no entry for its declared type; and a string
  value that is empty or not numeric is returned unchanged for every format type other
  than \<open>DATE\<close>.
\<close>

theorem toFormattedValue_raw:
  "v \<noteq> JNull \<and> v \<noteq> JUndefined \<longrightarrow>
     toFormattedValue X v None = Inr v
     \<and> (formatType fm = Some DEFAULT \<longrightarrow> toFormattedValue X v (Some fm) = Inr v)
     \<and> (formatType fm = None \<longrightarrow> toFormattedValue X v (Some fm) = Inr v)
     \<and> (formatType fm = Some t \<and> entry fm t = None \<longrightarrow> toFormattedValue X v (Some fm) = Inr v)
     \<and> (v = JStr s \<and> (s = [] \<or> strToNumber X s = NaN) \<and> formatType fm \<noteq> Some DATE \<longrightarrow>
          toFormattedValue X v (Some fm) = Inr v)"
  by (cases "formatType fm") (auto simp: toFormattedValue_def isNaN_def split: jsval.splits)

theorem toFormattedValue_raw_witness:
  "toFormattedValue sample_externals (JNum (Fin 7)) None = Inr (JNum (Fin 7))
   \<and> toFormattedValue sample_externals (JStr ''abc'')
        (Some \<lparr> formatType = Some NUMERIC,
                entry = (\<lambda>t. Some \<lparr> decimalPlaces = Some (Fin 2), unitKey = None,
                  useThousandSeparator = None, prefix = None, suffix = None,
                  currency = None, pattern = None \<rparr>) \<rparr>) = Inr (JStr ''abc'')"
  using toFormattedValue_raw [of "JNum (Fin 7)" sample_externals]
    toFormattedValue_raw [of "JStr ''abc''" sample_externals
      "\<lparr> formatType = Some NUMERIC,
         entry = (\<lambda>t. Some \<lparr> decimalPlaces = Some (Fin 2), unitKey = None,
           useThousandSeparator = None, prefix = None, suffix = None,
           currency = None, pattern = None \<rparr>) \<rparr>" NUMERIC "''abc''"]
  by (simp add: sample_externals_def)

text \<open>
  C5, as stated: for every \<open>max\<close> and \<open>min\<close> the symbol-size function divides by \<open>100\<close>
  instead of by \<open>max - min\<close> when \<open>max - min\<close> equals \<open>0\<close>. With \<open>max = min = 5\<close> the
  difference of the arguments is \<open>0\<close>, yet the function divides by \<open>5\<close>: it has lowered
  \<open>min\<close> to \<open>Math.min(0, min) = 0\<close> first, and the point \<open>[10]\<close> gets size \<open>40\<close>.
\<close>

theorem scatter_divisor_counterexample:
  "js_sub (Fin 5) (Fin 5) = Fin 0
   \<and> scatterDistance (Fin 5) (Fin 5) \<noteq> Fin 100
   \<and> getScatterSymbolSizeFn sample_externals 0 (Fin 5) (Fin 5) None (Some [JNum (Fin 10)]) = Fin 40"
  by (simp add: getScatterSymbolSizeFn_def scatterDistance_def scatterMin_def Math_min_def
      Math_max_def js_min2_def js_max2_def js_sub_def opt_index_def Let_def)

text \<open>
  C5, amended: no formatting or scaling helper divides by zero. In
  \<open>getScatterSymbolSizeFn\<close>, with \<open>min\<close> first lowered to \<open>Math.min(0, min)\<close>, the
  returned function divides by \<open>100\<close> when \<open>max - min\<close> equals \<open>0\<close> and by \<open>max - min\<close>
  otherwise, for every \<open>max\<close>, \<open>min\<close> and \<open>valueIndex\<close>. For every unit key,
  \<open>unitFormater\<close> and \<open>currencyFormater\<close> divide by \<open>realUnit\<close>, which is never \<open>0\<close> and is
  \<open>1\<close> when the unit table has no entry for the key or a falsy divisor.
\<close>

theorem divisors_never_zero:
  "scatterDistance mx mn \<noteq> Fin 0
   \<and> (js_sub mx (scatterMin mn) = Fin 0 \<longrightarrow> scatterDistance mx mn = Fin 100)
   \<and> (js_sub mx (scatterMin mn) \<noteq> Fin 0 \<longrightarrow> scatterDistance mx mn = js_sub mx (scatterMin mn))
   \<and> getScatterSymbolSizeFn X i mx mn r v =
       Math_max [Fin 3,
         js_mul (js_mul (js_mul
           (js_div (js_sub (to_number X (opt_index v i)) (scatterMin mn)) (scatterDistance mx mn))
           (case r of None \<Rightarrow> Fin 1 | Some q \<Rightarrow> if truthy (JNum q) then q else Fin 1))
           (Fin 10)) (Fin 2)]
   \<and> realUnit X k \<noteq> Fin 0
   \<and> ((case k of None \<Rightarrow> None | Some u \<Rightarrow> NumericUnitDescriptions X u) = None \<longrightarrow>
        realUnit X k = Fin 1)
   \<and> (k = Some u \<and> NumericUnitDescriptions X u = Some d \<and> \<not> truthy (JNum (fst d)) \<longrightarrow>
        realUnit X k = Fin 1)
   \<and> (unitKey c \<noteq> None \<and> \<not> isNaN X w \<longrightarrow>
        unitFormater X w c = JNum (js_div (to_number X w) (realUnit X (unitKey c))))
   \<and> (\<not> isNaN X w \<longrightarrow>
        currencyFormater X w c =
          (case currencyFormat X
                  (case currency c of None \<Rightarrow> ''CNY'' | Some a \<Rightarrow> if a = [] then ''CNY'' else a)
                  (decimalPlaces c) (useThousandSeparator c)
                  (js_div (to_number X w) (realUnit X (unitKey c))) of
             Inl e \<Rightarrow> Inl e
           | Inr s \<Rightarrow> Inr (JStr (s @ '' '' @
               (case unitSymbol X (unitKey c) of None \<Rightarrow> ''undefined'' | Some a \<Rightarrow> a)))))"
proof -
  have 1: "scatterDistance mx mn \<noteq> Fin 0"
    by (rule scatterDistance_nonzero)
  have 2: "js_sub mx (scatterMin mn) = Fin 0 \<longrightarrow> scatterDistance mx mn = Fin 100"
    and 3: "js_sub mx (scatterMin mn) \<noteq> Fin 0 \<longrightarrow> scatterDistance mx mn = js_sub mx (scatterMin mn)"
    by (simp_all add: scatterDistance_def)
  have 4: "getScatterSymbolSizeFn X i mx mn r v =
       Math_max [Fin 3,
         js_mul (js_mul (js_mul
           (js_div (js_sub (to_number X (opt_index v i)) (scatterMin mn)) (scatterDistance mx mn))
           (case r of None \<Rightarrow> Fin 1 | Some q \<Rightarrow> if truthy (JNum q) then q else Fin 1))
           (Fin 10)) (Fin 2)]"
    by (simp add: getScatterSymbolSizeFn_def Let_def)
  have 5: "realUnit X k \<noteq> Fin 0"
    by (simp add: realUnit_nonzero)
  have 6: "(case k of None \<Rightarrow> None | Some u \<Rightarrow> NumericUnitDescriptions X u) = None \<longrightarrow>
        realUnit X k = Fin 1"
    by (simp add: realUnit_def)
  have 7: "k = Some u \<and> NumericUnitDescriptions X u = Some d \<and> \<not> truthy (JNum (fst d)) \<longrightarrow>
        realUnit X k = Fin 1"
    by (auto simp: realUnit_def)
  have 8: "unitKey c \<noteq> None \<and> \<not> isNaN X w \<longrightarrow>
        unitFormater X w c = JNum (js_div (to_number X w) (realUnit X (unitKey c)))"
    by (simp add: unitFormater_def isEmpty_def)
  have 9: "\<not> isNaN X w \<longrightarrow>
        currencyFormater X w c =
          (case currencyFormat X
                  (case currency c of None \<Rightarrow> ''CNY'' | Some a \<Rightarrow> if a = [] then ''CNY'' else a)
                  (decimalPlaces c) (useThousandSeparator c)
                  (js_div (to_number X w) (realUnit X (unitKey c))) of
             Inl e \<Rightarrow> Inl e
           | Inr s \<Rightarrow> Inr (JStr (s @ '' '' @
               (case unitSymbol X (unitKey c) of None \<Rightarrow> ''undefined'' | Some a \<Rightarrow> a))))"
    by (simp add: currencyFormater_def)
  from 1 2 3 4 5 6 7 8 9 show ?thesis by blast
qed

theorem divisors_never_zero_witness:
  "scatterDistance (Fin 0) (Fin 7) = Fin 100
   \<and> scatterDistance (Fin 9) (Fin 7) = Fin 9
   \<and> realUnit sample_externals (Some ''zero'') = Fin 1
   \<and> realUnit sample_externals (Some ''missing'') = Fin 1
   \<and> unitFormater sample_externals (JStr ''12'')
        \<lparr> decimalPlaces = None, unitKey = Some ''zero'', useThousandSeparator = None,
          prefix = None, suffix = None, currency = None, pattern = None \<rparr> = JNum (Fin 12)"
  using divisors_never_zero [of "Fin 0" "Fin 7" sample_externals 0 None None "Some ''zero''"
      "''zero''" "(Fin 0, ''Z'')"
      "\<lparr> decimalPlaces = None, unitKey = Some ''zero'', useThousandSeparator = None,
          prefix = None, suffix = None, currency = None, pattern = None \<rparr>" "JStr ''12''"]
    divisors_never_zero [of "Fin 9" "Fin 7" sample_externals 0 None None "Some ''missing''"
      "''zero''" "(Fin 0, ''Z'')"
      "\<lparr> decimalPlaces = None, unitKey = Some ''zero'', useThousandSeparator = None,
          prefix = None, suffix = None, currency = None, pattern = None \<rparr>" "JStr ''12''"]
  by (simp add: sample_externals_def scatterMin_def Math_min_def js_min2_def js_sub_def isNaN_def)

text \<open>
  C2. For every mark-line configuration (and a data configuration that is present), both
  \<open>getMarkLineData2\<close> and \<open>getMarkLineData\<close> meet \<open>markLineSpec\<close>: an entry is produced
  only when \<open>enableMarkLine\<close> is set, its value stands under \<open>xAxis\<close> when the display is
  horizontal and under \<open>yAxis\<close> otherwise, and the value is the configured constant for
  \<open>constant\<close> and otherwise the average, maximum or minimum of the metric column's numbers
  when the data configuration's \<open>uid\<close> is the mark's metric. On a non-empty column of
  finite numbers \<open>Math.max\<close> and \<open>Math.min\<close> are the greatest and the least of them.
\<close>

theorem markLine_derived_value:
  "markLineSpec X (markSetting (rows mark) ''enableMarkLine'') (markSetting (rows mark) vtk)
      (markSetting (rows mark) cvk) (uid_is (uid dc) (markSetting (rows mark) mk))
      (map (\<lambda>d. to_number X (d dc)) dataSetRows) h
      (getMarkLineData2 X mark dataSetRows vtk cvk mk (Some dc) h)
   \<and> markLineSpec X (markSetting (rows mark) ''enableMarkLine'') (markSetting (rows mark) vtk)
      (markSetting (rows mark) cvk) (uid_is (uid dc) (markSetting (rows mark) mk))
      (map (\<lambda>d. to_number X (case map_of d (getValueByColumnKey (Some dc)) of
                                None \<Rightarrow> JUndefined | Some c \<Rightarrow> c)) dataColumns) h
      (getMarkLineData X mark dataColumns vtk cvk mk (Some dc) h)
   \<and> (rs \<noteq> [] \<longrightarrow> Math_max (map Fin rs) = Fin (Max (set rs))
                  \<and> Math_min (map Fin rs) = Fin (Min (set rs)))"
  using getMarkLineData2_spec getMarkLineData_spec Math_max_Fin Math_min_Fin by blast

theorem markLine_derived_value_witness:
  "(case getMarkLineData2 sample_externals sample_mark [\<lambda>f. JNum (Fin 3), \<lambda>f. JNum (Fin 8)]
       ''valueType'' ''constantValue'' ''metric'' (Some sample_field) False of
      Inl e \<Rightarrow> JUndefined | Inr ent \<Rightarrow> js_get ent ''yAxis'') = JNum (Fin 8)"
  using markLine_derived_value [of sample_externals sample_mark "''valueType''"
      "''constantValue''" sample_field "''metric''" "[\<lambda>f. JNum (Fin 3), \<lambda>f. JNum (Fin 8)]"
      False "[]" "[3, 8]"] sample_enableMarkLine sample_valueType sample_metric
  by (simp add: markLineSpec_def uid_is_def sample_field_def split: sum.splits)

text \<open>
  C10. \<open>getMarkArea2\<close> emits a mark area only when both of its boundary points are
  produced: every emitted area is the pair of the truthy results of \<open>getMarkAreaData2\<close>
  for \<open>start\<close> and for \<open>end\<close> on one mark. \<open>getMarkAreaData2\<close> yields no point when
  \<open>enableMarkArea\<close> is falsy or when the derived axis value is not a finite number; a point
  it yields carries a finite number.
\<close>

theorem markArea_needs_both_points:
  "(getMarkArea2 X refTabs ds dataConfig h = Inr (Some areas) \<longrightarrow>
      (\<forall>area \<in> set areas. \<exists>tabs mark s e.
          refTabs = Some tabs \<and> mark \<in> set (refAreas tabs) \<and> area = [s, e]
          \<and> getMarkAreaData2 X mark ds ''startValueType'' ''startConstantValue'' ''startMetric''
               dataConfig h = Inr s \<and> truthy s
          \<and> getMarkAreaData2 X mark ds ''endValueType'' ''endConstantValue'' ''endMetric''
               dataConfig h = Inr e \<and> truthy e))
   \<and> (\<not> truthy (markSetting (rows m) ''enableMarkArea'') \<longrightarrow>
        getMarkAreaData2 X (Some m) ds vtk cvk mk (Some dc) h = Inr JUndefined)
   \<and> (\<not> Number_isFinite
          (switchValueType X (markSetting (rows m) vtk) (markSetting (rows m) cvk)
             (if uid_is (uid dc) (markSetting (rows m) mk)
              then map (\<lambda>d. to_number X (d dc)) ds else [])) \<longrightarrow>
        getMarkAreaData2 X (Some m) ds vtk cvk mk (Some dc) h = Inr JUndefined)
   \<and> (getMarkAreaData2 X mark ds vtk cvk mk dataConfig h = Inr p \<and> truthy p \<longrightarrow>
        (\<exists>m' r. mark = Some m' \<and> truthy (markSetting (rows m') ''enableMarkArea'')
           \<and> js_get p (if h then ''xAxis'' else ''yAxis'') = JNum (Fin r)))"
proof -
  have a: "getMarkArea2 X refTabs ds dataConfig h = Inr (Some areas) \<longrightarrow>
      (\<forall>area \<in> set areas. \<exists>tabs mark s e.
          refTabs = Some tabs \<and> mark \<in> set (refAreas tabs) \<and> area = [s, e]
          \<and> getMarkAreaData2 X mark ds ''startValueType'' ''startConstantValue'' ''startMetric''
               dataConfig h = Inr s \<and> truthy s
          \<and> getMarkAreaData2 X mark ds ''endValueType'' ''endConstantValue'' ''endMetric''
               dataConfig h = Inr e \<and> truthy e)"
    using getMarkArea2_areas by blast
  have b: "\<not> truthy (markSetting (rows m) ''enableMarkArea'') \<longrightarrow>
        getMarkAreaData2 X (Some m) ds vtk cvk mk (Some dc) h = Inr JUndefined"
    by (simp add: getMarkAreaData2_def Let_def)
  have c: "\<not> Number_isFinite
          (switchValueType X (markSetting (rows m) vtk) (markSetting (rows m) cvk)
             (if uid_is (uid dc) (markSetting (rows m) mk)
              then map (\<lambda>d. to_number X (d dc)) ds else [])) \<longrightarrow>
        getMarkAreaData2 X (Some m) ds vtk cvk mk (Some dc) h = Inr JUndefined"
    by (simp add: getMarkAreaData2_def Let_def)
  have d: "getMarkAreaData2 X mark ds vtk cvk mk dataConfig h = Inr p \<and> truthy p \<longrightarrow>
        (\<exists>m' r. mark = Some m' \<and> truthy (markSetting (rows m') ''enableMarkArea'')
           \<and> js_get p (if h then ''xAxis'' else ''yAxis'') = JNum (Fin r))"
    using getMarkAreaData2_point by blast
  from a b c d show ?thesis by blast
qed

theorem markArea_needs_both_points_witness:
  "getMarkArea2 sample_externals (Some sample_tabs) [\<lambda>f. JNum (Fin 3), \<lambda>f. JNum (Fin 8)]
     (Some sample_field) False = Inr (Some [sample_points])
   \<and> length sample_points = 2
   \<and> getMarkAreaData2 sample_externals (Some sample_mark) [] ''startValueType''
        ''startConstantValue'' ''startMetric'' (Some sample_field) False = Inr JUndefined"
proof -
  note inst1 = markArea_needs_both_points [of sample_externals "Some sample_tabs"
      "[\<lambda>f. JNum (Fin 3), \<lambda>f. JNum (Fin 8)]" "Some sample_field" False "[sample_points]"
      sample_mark "''startValueType''" "''startConstantValue''" "''startMetric''" sample_field
      None JUndefined]
  note inst2 = markArea_needs_both_points [of sample_externals "Some sample_tabs"
      "[]" "Some sample_field" False "[sample_points]" sample_mark
      "''startValueType''" "''startConstantValue''" "''startMetric''" sample_field
      None JUndefined]
  from inst1 sample_getMarkArea2 obtain s e where se: "sample_points = [s, e]"
    by auto
  have "length [s, e] = 2"
    by simp
  with se have len: "length sample_points = 2"
    by (simp only:)
  from inst2 sample_enableMarkArea
  have "getMarkAreaData2 sample_externals (Some sample_mark) [] ''startValueType''
        ''startConstantValue'' ''startMetric'' (Some sample_field) False = Inr JUndefined"
    by simp
  with sample_getMarkArea2 len show ?thesis
    by simp
qed








end
